theory Spec2Isabelle
  imports Main "HOL-Library.AList"
begin

section \<open>Data model (models/Page.js)\<close>

text \<open>
  Identifiers (Mongo object ids compared through \<open>toString()\<close>) are strings. A version
  is a JavaScript number that starts at 1 and only ever has 1 added or is overwritten by
  a stored version, so it is an integer. Time stamps (\<open>updatedAt\<close>, \<open>addedAt\<close>,
  \<open>joinedAt\<close>, \<open>timestamp\<close>) are read from the clock and decide nothing; they are left
  out of the records and payloads.
\<close>

datatype block_type = Text | Image | Button | Container | Form | Divider | Card | ListBlock

record block =
  block_id :: string
  block_type :: block_type
  content :: string
  styles :: string
  children :: "string list"
  parent :: "string option"
  order :: int

text \<open>The schema's \<open>enum: ['viewer', 'editor', 'admin']\<close>.\<close>

datatype role = Viewer | Editor | Admin

record collaborator =
  collab_user :: string
  collab_role :: role

record history_entry =
  h_version :: int
  h_blocks :: "block list"
  h_updatedBy :: string
  h_changeDescription :: string

text \<open>
  The nested \<open>settings\<close> path declares six string fields and nothing else; a field that
  was never set is \<open>None\<close>.
\<close>

record page_settings =
  theme :: "string option"
  favicon :: "string option"
  metaTitle :: "string option"
  metaDescription :: "string option"
  customCSS :: "string option"
  customJS :: "string option"

record page =
  title :: string
  blocks :: "block list"
  owner :: string
  collaborators :: "collaborator list"
  version :: int
  history :: "history_entry list"
  settings :: page_settings

subsection \<open>Schema setters\<close>

text \<open>
  \<open>title\<close> is declared with \<open>trim: true\<close>, so every assignment \<open>page.title = t\<close> stores
  \<open>t.trim()\<close>. Strings are ASCII text here; the white space that \<open>trim\<close> removes is tab,
  line feed, vertical tab, form feed, carriage return and space.
\<close>

definition is_space :: "char \<Rightarrow> bool" where
  "is_space c = (c \<in> set [CHR 0x09, CHR 0x0A, CHR 0x0B, CHR 0x0C, CHR 0x0D, CHR 0x20])"

definition trim :: "string \<Rightarrow> string" where
  "trim t = rev (dropWhile is_space (rev (dropWhile is_space t)))"

definition assign_title :: "string \<Rightarrow> page \<Rightarrow> page" where
  "assign_title t p = p\<lparr>title := trim t\<rparr>"

text \<open>
  \<open>page.settings = { ...page.settings, ...settings }\<close>: the spread takes each key from
  the payload object where it has one and from the stored settings otherwise; the
  assignment casts the result through the strict schema, which keeps the six declared
  fields and drops every other key. A JavaScript object is a finite map from keys to
  values.
\<close>

definition spread_field :: "(string \<rightharpoonup> string) \<Rightarrow> string \<Rightarrow> string option \<Rightarrow> string option" where
  "spread_field obj k old = (case obj k of None \<Rightarrow> old | Some v \<Rightarrow> Some v)"

definition assign_settings :: "(string \<rightharpoonup> string) \<Rightarrow> page \<Rightarrow> page" where
  "assign_settings obj p =
     p\<lparr>settings :=
         \<lparr>theme = spread_field obj ''theme'' (theme (settings p)),
          favicon = spread_field obj ''favicon'' (favicon (settings p)),
          metaTitle = spread_field obj ''metaTitle'' (metaTitle (settings p)),
          metaDescription = spread_field obj ''metaDescription'' (metaDescription (settings p)),
          customCSS = spread_field obj ''customCSS'' (customCSS (settings p)),
          customJS = spread_field obj ''customJS'' (customJS (settings p))\<rparr>\<rparr>"

subsection \<open>pageSchema.methods.hasAccess\<close>

text \<open>\<open>const roleHierarchy = { viewer: 1, editor: 2, admin: 3 }\<close>\<close>

fun roleHierarchy :: "role \<Rightarrow> nat" where
  "roleHierarchy Viewer = 1"
| "roleHierarchy Editor = 2"
| "roleHierarchy Admin = 3"

text \<open>
  \<open>Array.prototype.find\<close> returns the first collaborator entry of the user, as
  \<^const>\<open>List.find\<close> does.
\<close>

definition hasAccess :: "page \<Rightarrow> string \<Rightarrow> role \<Rightarrow> bool" where
  "hasAccess p uid requiredRole =
     (if owner p = uid then True
      else case List.find (\<lambda>collab. collab_user collab = uid) (collaborators p) of
             None \<Rightarrow> False
           | Some collab \<Rightarrow> roleHierarchy requiredRole \<le> roleHierarchy (collab_role collab))"

section \<open>Connections, presence registry and outbound events (socket/socketHandlers.js)\<close>

record user_summary =
  u_id :: string
  name :: string
  avatar :: string

text \<open>
  The per-connection state: the authenticated user set once by the middleware, the
  \<open>currentPageId\<close> property (\<open>None\<close> while it is undefined) and the rooms the
  connection has joined through \<open>socket.join\<close>.
\<close>

record socket =
  userId :: string
  user :: user_summary
  currentPageId :: "string option"
  rooms :: "string set"

text \<open>\<open>if (socket.currentPageId)\<close>: undefined and the empty string are falsy.\<close>

definition truthy :: "string option \<Rightarrow> bool" where
  "truthy v = (case v of None \<Rightarrow> False | Some s \<Rightarrow> s \<noteq> [])"

text \<open>
  The document store behind \<open>Page.findById\<close> and \<open>page.save()\<close> is a finite map (a
  lookup that throws on a malformed id is outside the model); the
  module-level \<open>activeUsers\<close> is a JavaScript \<open>Map\<close> of \<open>Map\<close>s, which keeps insertion
  order, so it is an association list of association lists.
\<close>

type_synonym presence = "(string \<times> user_summary) list"

record world =
  pages :: "string \<rightharpoonup> page"
  activeUsers :: "(string \<times> presence) list"

datatype target = Sender | RoomExceptSender string

datatype event =
    Error string
  | UserJoined string user_summary
  | UserLeft string user_summary
  | ActiveUsers "user_summary list"
  | BlocksUpdated "block list" int user_summary string "string option"
  | UserCursor string user_summary string "string option"
  | BlockSelected string user_summary "string option"
  | UserTyping string user_summary "string option" bool
  | PageSettingsUpdated page_settings user_summary
  | PageTitleUpdated string user_summary
  | HistoryNavigated "block list" int string user_summary

type_synonym outbox = "(target \<times> event) list"

subsection \<open>Helper functions for managing active users\<close>

definition addUserToPage ::
  "string \<Rightarrow> string \<Rightarrow> user_summary \<Rightarrow> (string \<times> presence) list \<Rightarrow> (string \<times> presence) list" where
  "addUserToPage pageId uid u au =
     (let au1 = (if map_of au pageId = None then AList.update pageId [] au else au)
      in case map_of au1 pageId of
           None \<Rightarrow> au1
         | Some pageUsers \<Rightarrow> AList.update pageId (AList.update uid u pageUsers) au1)"

definition removeUserFromPage ::
  "string \<Rightarrow> string \<Rightarrow> (string \<times> presence) list \<Rightarrow> (string \<times> presence) list" where
  "removeUserFromPage pageId uid au =
     (case map_of au pageId of
        None \<Rightarrow> au
      | Some pageUsers \<Rightarrow>
          (let pageUsers' = AList.delete uid pageUsers
           in if length pageUsers' = 0 then AList.delete pageId au
              else AList.update pageId pageUsers' au))"

definition getActiveUsersForPage :: "string \<Rightarrow> (string \<times> presence) list \<Rightarrow> user_summary list" where
  "getActiveUsersForPage pageId au =
     (case map_of au pageId of None \<Rightarrow> [] | Some pageUsers \<Rightarrow> map snd pageUsers)"

subsection \<open>join-page and disconnect\<close>

definition join_page :: "socket \<Rightarrow> world \<Rightarrow> string \<Rightarrow> socket \<times> world \<times> outbox" where
  "join_page s w pageId =
     (case pages w pageId of
        None \<Rightarrow> (s, w, [(Sender, Error ''Page not found'')])
      | Some p \<Rightarrow>
          if \<not> hasAccess p (userId s) Viewer
          then (s, w, [(Sender, Error ''Access denied to this page'')])
          else
            (let (s1, au1) =
                   (case currentPageId s of
                      None \<Rightarrow> (s, activeUsers w)
                    | Some cur \<Rightarrow>
                        if cur \<noteq> []
                        then (s\<lparr>rooms := rooms s - {cur}\<rparr>,
                              removeUserFromPage cur (userId s) (activeUsers w))
                        else (s, activeUsers w));
                 s2 = s1\<lparr>rooms := insert pageId (rooms s1), currentPageId := Some pageId\<rparr>;
                 au2 = addUserToPage pageId (userId s) (user s) au1
             in (s2, w\<lparr>activeUsers := au2\<rparr>,
                 [(RoomExceptSender pageId, UserJoined (userId s) (user s)),
                  (Sender, ActiveUsers (getActiveUsersForPage pageId au2))])))"

definition disconnect :: "socket \<Rightarrow> world \<Rightarrow> world \<times> outbox" where
  "disconnect s w =
     (case currentPageId s of
        None \<Rightarrow> (w, [])
      | Some cur \<Rightarrow>
          if cur \<noteq> []
          then (w\<lparr>activeUsers := removeUserFromPage cur (userId s) (activeUsers w)\<rparr>,
                [(RoomExceptSender cur, UserLeft (userId s) (user s))])
          else (w, []))"

subsection \<open>Ephemeral events\<close>

record cursor_data =
  position :: string
  c_blockId :: "string option"

definition cursor_move :: "socket \<Rightarrow> world \<Rightarrow> cursor_data \<Rightarrow> world \<times> outbox" where
  "cursor_move s w d =
     (case currentPageId s of
        None \<Rightarrow> (w, [])
      | Some cur \<Rightarrow>
          if cur \<noteq> []
          then (w, [(RoomExceptSender cur,
                     UserCursor (userId s) (user s) (position d) (c_blockId d))])
          else (w, []))"

definition block_select :: "socket \<Rightarrow> world \<Rightarrow> string option \<Rightarrow> world \<times> outbox" where
  "block_select s w blockId =
     (case currentPageId s of
        None \<Rightarrow> (w, [])
      | Some cur \<Rightarrow>
          if cur \<noteq> []
          then (w, [(RoomExceptSender cur, BlockSelected (userId s) (user s) blockId)])
          else (w, []))"

definition typing_start :: "socket \<Rightarrow> world \<Rightarrow> string option \<Rightarrow> world \<times> outbox" where
  "typing_start s w blockId =
     (case currentPageId s of
        None \<Rightarrow> (w, [])
      | Some cur \<Rightarrow>
          if cur \<noteq> []
          then (w, [(RoomExceptSender cur, UserTyping (userId s) (user s) blockId True)])
          else (w, []))"

definition typing_stop :: "socket \<Rightarrow> world \<Rightarrow> string option \<Rightarrow> world \<times> outbox" where
  "typing_stop s w blockId =
     (case currentPageId s of
        None \<Rightarrow> (w, [])
      | Some cur \<Rightarrow>
          if cur \<noteq> []
          then (w, [(RoomExceptSender cur, UserTyping (userId s) (user s) blockId False)])
          else (w, []))"

subsection \<open>Mutating events\<close>

text \<open>
  \<open>await page.save()\<close> is answered by the document store. Whether it resolves or throws
  (a validation error such as an empty or over-long title, or a failure of the store) is
  an input of each handler (\<open>save_ok\<close>); a throw lands in the handler's \<open>catch\<close>, which
  reports to the sender and leaves the stored document as it was.
\<close>

text \<open>\<open>xs.slice(-n)\<close>: the last \<open>n\<close> elements, all of them when there are fewer.\<close>

definition slice_last :: "nat \<Rightarrow> 'a list \<Rightarrow> 'a list" where
  "slice_last n xs = drop (length xs - n) xs"

text \<open>
  \<open>page.history.push(entry)\<close> followed by
  \<open>if (page.history.length > 10) page.history = page.history.slice(-10)\<close>.
\<close>

definition push_history :: "history_entry \<Rightarrow> page \<Rightarrow> page" where
  "push_history e p =
     (let p1 = p\<lparr>history := history p @ [e]\<rparr>
      in if length (history p1) > 10 then p1\<lparr>history := slice_last 10 (history p1)\<rparr> else p1)"

record update_blocks_data =
  ub_pageId :: string
  ub_blocks :: "block list"
  ub_changeType :: string
  ub_blockId :: "string option"

text \<open>The template literal \<open>`${changeType} block${blockId ? ` ${blockId}` : ''}`\<close>.\<close>

definition changeDescription :: "string \<Rightarrow> string option \<Rightarrow> string" where
  "changeDescription changeType blockId =
     changeType @ '' block'' @
       (case blockId of None \<Rightarrow> [] | Some b \<Rightarrow> if b \<noteq> [] then '' '' @ b else [])"

definition update_blocks :: "bool \<Rightarrow> socket \<Rightarrow> world \<Rightarrow> update_blocks_data \<Rightarrow> world \<times> outbox" where
  "update_blocks save_ok s w d =
     (case pages w (ub_pageId d) of
        None \<Rightarrow> (w, [(Sender, Error ''Access denied'')])
      | Some p \<Rightarrow>
          if \<not> hasAccess p (userId s) Editor
          then (w, [(Sender, Error ''Access denied'')])
          else
            (let p1 = push_history
                        \<lparr>h_version = version p, h_blocks = blocks p, h_updatedBy = userId s,
                         h_changeDescription = changeDescription (ub_changeType d) (ub_blockId d)\<rparr> p;
                 p2 = p1\<lparr>blocks := ub_blocks d\<rparr>;
                 p3 = p2\<lparr>version := version p2 + 1\<rparr>
             in if save_ok
                then (w\<lparr>pages := (pages w)(ub_pageId d \<mapsto> p3)\<rparr>,
                      [(RoomExceptSender (ub_pageId d),
                        BlocksUpdated (ub_blocks d) (version p3) (user s)
                          (ub_changeType d) (ub_blockId d))])
                else (w, [(Sender, Error ''Failed to update blocks'')])))"

record settings_data =
  us_pageId :: string
  us_settings :: "string \<rightharpoonup> string"

text \<open>The broadcast carries \<open>page.settings\<close>, read back from the document after the assignment.\<close>

definition update_page_settings :: "bool \<Rightarrow> socket \<Rightarrow> world \<Rightarrow> settings_data \<Rightarrow> world \<times> outbox" where
  "update_page_settings save_ok s w d =
     (case pages w (us_pageId d) of
        None \<Rightarrow> (w, [(Sender, Error ''Access denied'')])
      | Some p \<Rightarrow>
          if \<not> hasAccess p (userId s) Editor
          then (w, [(Sender, Error ''Access denied'')])
          else
            (let p1 = assign_settings (us_settings d) p
             in if save_ok
                then (w\<lparr>pages := (pages w)(us_pageId d \<mapsto> p1)\<rparr>,
                      [(RoomExceptSender (us_pageId d), PageSettingsUpdated (settings p1) (user s))])
                else (w, [(Sender, Error ''Failed to update page settings'')])))"

text \<open>The broadcast carries \<open>page.title\<close>, read back after the setter has run.\<close>

record title_data =
  ut_pageId :: string
  ut_title :: string

definition update_page_title :: "bool \<Rightarrow> socket \<Rightarrow> world \<Rightarrow> title_data \<Rightarrow> world \<times> outbox" where
  "update_page_title save_ok s w d =
     (case pages w (ut_pageId d) of
        None \<Rightarrow> (w, [(Sender, Error ''Access denied'')])
      | Some p \<Rightarrow>
          if \<not> hasAccess p (userId s) Editor
          then (w, [(Sender, Error ''Access denied'')])
          else
            (let p1 = assign_title (ut_title d) p
             in if save_ok
                then (w\<lparr>pages := (pages w)(ut_pageId d \<mapsto> p1)\<rparr>,
                      [(RoomExceptSender (ut_pageId d), PageTitleUpdated (title p1) (user s))])
                else (w, [(Sender, Error ''Failed to update page title'')])))"

record undo_redo_data =
  ur_pageId :: string
  ur_action :: string
  ur_version :: "int option"

text \<open>
  \<open>targetVersion\<close> stays undefined (\<open>None\<close>) when the action is neither undo nor redo
  and no version was sent.
\<close>

definition targetVersion :: "page \<Rightarrow> undo_redo_data \<Rightarrow> int option" where
  "targetVersion p d =
     (if ur_action d = ''undo'' then Some (version p - 1)
      else if ur_action d = ''redo'' then Some (version p + 1)
      else ur_version d)"

text \<open>
  \<open>page.history.find(h => h.version === targetVersion)\<close>: the first entry with that
  version; every stored version is a number, so an undefined target matches none.
\<close>

definition historyEntry :: "page \<Rightarrow> int option \<Rightarrow> history_entry option" where
  "historyEntry p tv = List.find (\<lambda>h. Some (h_version h) = tv) (history p)"

definition undo_redo :: "bool \<Rightarrow> socket \<Rightarrow> world \<Rightarrow> undo_redo_data \<Rightarrow> world \<times> outbox" where
  "undo_redo save_ok s w d =
     (case pages w (ur_pageId d) of
        None \<Rightarrow> (w, [(Sender, Error ''Access denied'')])
      | Some p \<Rightarrow>
          if \<not> hasAccess p (userId s) Editor
          then (w, [(Sender, Error ''Access denied'')])
          else
            (case historyEntry p (targetVersion p d) of
               None \<Rightarrow> (w, [])
             | Some h \<Rightarrow>
                 (let p1 = p\<lparr>blocks := h_blocks h\<rparr>;
                      p2 = (case targetVersion p d of
                              None \<Rightarrow> p1
                            | Some tv \<Rightarrow> p1\<lparr>version := tv\<rparr>)
                  in if save_ok
                     then (w\<lparr>pages := (pages w)(ur_pageId d \<mapsto> p2)\<rparr>,
                           [(RoomExceptSender (ur_pageId d),
                             HistoryNavigated (blocks p2) (version p2) (ur_action d) (user s))])
                     else (w, [(Sender, Error ''Failed to perform undo/redo operation'')]))))"

section \<open>REST routes that write blocks (routes/pages.js)\<close>

text \<open>
  The routes run behind the \<open>auth\<close> middleware, which supplies the requesting user's id,
  and answer with a status code and a message.
\<close>

datatype response = Response nat string

text \<open>\<open>PUT /api/pages/:id/blocks\<close>\<close>

definition put_blocks :: "bool \<Rightarrow> string \<Rightarrow> world \<Rightarrow> string \<Rightarrow> block list \<Rightarrow> world \<times> response" where
  "put_blocks save_ok uid w pid new_blocks =
     (case pages w pid of
        None \<Rightarrow> (w, Response 404 ''Page not found'')
      | Some p \<Rightarrow>
          if \<not> hasAccess p uid Editor
          then (w, Response 403 ''Access denied'')
          else
            (let p1 = push_history
                        \<lparr>h_version = version p, h_blocks = blocks p, h_updatedBy = uid,
                         h_changeDescription = ''Blocks updated''\<rparr> p;
                 p2 = p1\<lparr>blocks := new_blocks\<rparr>;
                 p3 = p2\<lparr>version := version p2 + 1\<rparr>
             in if save_ok
                then (w\<lparr>pages := (pages w)(pid \<mapsto> p3)\<rparr>, Response 200 ''Blocks updated successfully'')
                else (w, Response 500 ''Server error during blocks update'')))"

text \<open>
  \<open>PUT /api/pages/:id\<close>. Of the request body only the fields of the modelled document
  are kept (title, blocks, settings); description, category, tags and isPublished touch
  neither blocks, version nor history. \<open>Object.assign(page, req.body)\<close> assigns each
  field that is present; the body's settings object has passed the request validation,
  which admits the six declared keys only.
\<close>

record page_body =
  b_title :: "string option"
  b_blocks :: "block list option"
  b_settings :: "page_settings option"

definition assign_body :: "page \<Rightarrow> page_body \<Rightarrow> page" where
  "assign_body p b =
     (let p1 = (case b_title b of None \<Rightarrow> p | Some t \<Rightarrow> assign_title t p);
          p2 = (case b_blocks b of None \<Rightarrow> p1 | Some bs \<Rightarrow> p1\<lparr>blocks := bs\<rparr>)
      in (case b_settings b of None \<Rightarrow> p2 | Some st \<Rightarrow> p2\<lparr>settings := st\<rparr>))"

definition put_page :: "bool \<Rightarrow> string \<Rightarrow> world \<Rightarrow> string \<Rightarrow> page_body \<Rightarrow> world \<times> response" where
  "put_page save_ok uid w pid b =
     (case pages w pid of
        None \<Rightarrow> (w, Response 404 ''Page not found'')
      | Some p \<Rightarrow>
          if \<not> hasAccess p uid Editor
          then (w, Response 403 ''Access denied'')
          else
            (let p1 = (case b_blocks b of
                         None \<Rightarrow> p
                       | Some bs \<Rightarrow>
                           (let q = push_history
                                      \<lparr>h_version = version p, h_blocks = blocks p, h_updatedBy = uid,
                                       h_changeDescription = ''Blocks updated''\<rparr> p
                            in q\<lparr>version := version q + 1\<rparr>));
                 p2 = assign_body p1 b
             in if save_ok
                then (w\<lparr>pages := (pages w)(pid \<mapsto> p2)\<rparr>, Response 200 ''Page updated successfully'')
                else (w, Response 500 ''Server error during page update'')))"

section \<open>Sequences of mutating requests\<close>

text \<open>
  Every entry point of the repository that writes a stored document, with the outcome
  of its save.
\<close>

datatype request =
    UpdateBlocks bool socket update_blocks_data
  | UpdatePageSettings bool socket settings_data
  | UpdatePageTitle bool socket title_data
  | UndoRedo bool socket undo_redo_data
  | PutBlocks bool string string "block list"
  | PutPage bool string string page_body

fun step :: "world \<Rightarrow> request \<Rightarrow> world" where
  "step w (UpdateBlocks ok s d) = fst (update_blocks ok s w d)"
| "step w (UpdatePageSettings ok s d) = fst (update_page_settings ok s w d)"
| "step w (UpdatePageTitle ok s d) = fst (update_page_title ok s w d)"
| "step w (UndoRedo ok s d) = fst (undo_redo ok s w d)"
| "step w (PutBlocks ok uid pid bs) = fst (put_blocks ok uid w pid bs)"
| "step w (PutPage ok uid pid b) = fst (put_page ok uid w pid b)"

definition run :: "world \<Rightarrow> request list \<Rightarrow> world" where
  "run w rs = foldl step w rs"

section \<open>Example states\<close>

text \<open>
  Alice (u1) owns two pages; Bob (u2) is an editor and Carol (u3) a viewer on both; Dave
  (u4) has no grant. Page p1 is new: version 1, one block, no history, the default
  theme.
\<close>

definition blk :: "string \<Rightarrow> block" where
  "blk i = \<lparr>block_id = i, block_type = Text, content = [], styles = [], children = [],
            parent = None, order = 0\<rparr>"

definition alice :: user_summary where
  "alice = \<lparr>u_id = ''u1'', name = ''Alice'', avatar = []\<rparr>"

definition bob :: user_summary where
  "bob = \<lparr>u_id = ''u2'', name = ''Bob'', avatar = []\<rparr>"

definition carol :: user_summary where
  "carol = \<lparr>u_id = ''u3'', name = ''Carol'', avatar = []\<rparr>"

definition dave :: user_summary where
  "dave = \<lparr>u_id = ''u4'', name = ''Dave'', avatar = []\<rparr>"

definition unbound_socket :: "user_summary \<Rightarrow> socket" where
  "unbound_socket u = \<lparr>userId = u_id u, user = u, currentPageId = None, rooms = {}\<rparr>"

definition bound_socket :: "user_summary \<Rightarrow> string \<Rightarrow> socket" where
  "bound_socket u pid = \<lparr>userId = u_id u, user = u, currentPageId = Some pid, rooms = {pid}\<rparr>"

definition home_page :: page where
  "home_page = \<lparr>title = ''Home'', blocks = [blk ''a''], owner = ''u1'',
     collaborators = [\<lparr>collab_user = ''u2'', collab_role = Editor\<rparr>,
                      \<lparr>collab_user = ''u3'', collab_role = Viewer\<rparr>],
     version = 1, history = [],
     settings = \<lparr>theme = Some ''default'', favicon = None, metaTitle = None,
                 metaDescription = None, customCSS = None, customJS = None\<rparr>\<rparr>"

definition world0 :: world where
  "world0 = \<lparr>pages = [''p1'' \<mapsto> home_page, ''p2'' \<mapsto> home_page\<lparr>title := ''Blog''\<rparr>],
             activeUsers = []\<rparr>"

definition world1 :: world where
  "world1 = world0\<lparr>activeUsers := [(''p1'', [(''u1'', alice), (''u2'', bob)])]\<rparr>"

definition set_blocks :: "string \<Rightarrow> update_blocks_data" where
  "set_blocks i =
     \<lparr>ub_pageId = ''p1'', ub_blocks = [blk i], ub_changeType = ''update'', ub_blockId = Some i\<rparr>"

definition set_theme :: settings_data where
  "set_theme = \<lparr>us_pageId = ''p1'', us_settings = [''theme'' \<mapsto> ''dark'', ''foo'' \<mapsto> ''bar'']\<rparr>"

definition set_title :: title_data where
  "set_title = \<lparr>ut_pageId = ''p1'', ut_title = '' Start ''\<rparr>"

definition undo :: undo_redo_data where
  "undo = \<lparr>ur_pageId = ''p1'', ur_action = ''undo'', ur_version = None\<rparr>"

definition redo :: undo_redo_data where
  "redo = \<lparr>ur_pageId = ''p1'', ur_action = ''redo'', ur_version = None\<rparr>"

definition edit :: "string \<Rightarrow> request" where
  "edit i = UpdateBlocks True (unbound_socket bob) (set_blocks i)"

definition undo_req :: request where
  "undo_req = UndoRedo True (unbound_socket bob) undo"

definition redo_req :: request where
  "redo_req = UndoRedo True (unbound_socket bob) redo"

definition long_edits :: "request list" where
  "long_edits = [edit ''b'', edit ''c'', edit ''d'', edit ''e'', edit ''f'', edit ''g'',
                 edit ''h'', edit ''i'', edit ''j'', edit ''k'', edit ''l'', edit ''m'']"

text \<open>The first page after Bob's first edit.\<close>

definition edited_page :: page where
  "edited_page = home_page\<lparr>blocks := [blk ''b''], version := 2,
     history := [\<lparr>h_version = 1, h_blocks = [blk ''a''], h_updatedBy = ''u2'',
                  h_changeDescription = ''update block b''\<rparr>]\<rparr>"

definition world2 :: world where
  "world2 = world0\<lparr>pages := (pages world0)(''p1'' \<mapsto> edited_page)\<rparr>"

text \<open>
  Edits that go back two versions and then branch: b, c, undo, undo, d.
\<close>

definition branch_edits :: "request list" where
  "branch_edits = [edit ''b'', edit ''c'', undo_req, undo_req, edit ''d'']"

lemmas example_defs =
  blk_def alice_def bob_def carol_def dave_def unbound_socket_def bound_socket_def home_page_def
  world0_def world1_def set_blocks_def set_theme_def set_title_def undo_def redo_def edit_def
  undo_req_def redo_req_def long_edits_def edited_page_def world2_def

lemmas eval_defs =
  run_def example_defs update_blocks_def undo_redo_def hasAccess_def push_history_def
  slice_last_def changeDescription_def targetVersion_def historyEntry_def

section \<open>The history log\<close>

lemma length_slice_last: "length (slice_last n xs) = min n (length xs)"
  by (simp add: slice_last_def)

lemma slice_last_short: "length xs \<le> n \<Longrightarrow> slice_last n xs = xs"
  by (simp add: slice_last_def)

lemma slice_last_snoc_full: "length xs = n \<Longrightarrow> 0 < n \<Longrightarrow> slice_last n (xs @ [e]) = tl xs @ [e]"
  by (cases xs) (simp_all add: slice_last_def)

lemma history_push_history: "history (push_history e p) = slice_last 10 (history p @ [e])"
  by (simp add: push_history_def Let_def slice_last_def)

lemma push_history_fields:
  "version (push_history e p) = version p"
  "blocks (push_history e p) = blocks p"
  "title (push_history e p) = title p"
  "settings (push_history e p) = settings p"
  "owner (push_history e p) = owner p"
  "collaborators (push_history e p) = collaborators p"
  by (simp_all add: push_history_def Let_def)

lemma last_push_history: "last (history (push_history e p)) = e"
  by (simp add: history_push_history slice_last_def)

lemma length_push_history: "length (history (push_history e p)) \<le> 10"
  by (simp add: history_push_history length_slice_last)

lemma assign_title_fields:
  "history (assign_title t p) = history p"
  "version (assign_title t p) = version p"
  "blocks (assign_title t p) = blocks p"
  "title (assign_title t p) = trim t"
  by (simp_all add: assign_title_def)

lemma assign_settings_fields:
  "history (assign_settings obj p) = history p"
  "version (assign_settings obj p) = version p"
  "blocks (assign_settings obj p) = blocks p"
  "title (assign_settings obj p) = title p"
  by (simp_all add: assign_settings_def)

lemma history_assign_body: "history (assign_body p b) = history p"
  by (simp add: assign_body_def Let_def assign_title_fields split: option.splits)

lemma step_dom: "pages (step w r) pid = Some p' \<Longrightarrow> \<exists>p. pages w pid = Some p"
  by (cases r)
     (auto simp: update_blocks_def update_page_settings_def update_page_title_def undo_redo_def
        put_blocks_def put_page_def Let_def split: option.splits if_splits)

lemma step_history:
  assumes "pages w pid = Some p" "pages (step w r) pid = Some p'"
  shows "history p' = history p \<or> (\<exists>e. history p' = slice_last 10 (history p @ [e]))"
  using assms
  by (cases r)
     (auto simp: update_blocks_def update_page_settings_def update_page_title_def undo_redo_def
        put_blocks_def put_page_def Let_def history_push_history history_assign_body
        assign_title_fields assign_settings_fields split: option.splits if_splits)


lemma step_bounded:
  assumes "\<forall>pid p. pages w pid = Some p \<longrightarrow> length (history p) \<le> 10"
    and "pages (step w r) pid = Some p'"
  shows "length (history p') \<le> 10"
proof -
  from assms(2) obtain p where p: "pages w pid = Some p"
    using step_dom by blast
  with assms(1) have le: "length (history p) \<le> 10" by blast
  from step_history [OF p assms(2)] show ?thesis
  proof
    assume "history p' = history p"
    with le show ?thesis by simp
  next
    assume "\<exists>e. history p' = slice_last 10 (history p @ [e])"
    then show ?thesis by (auto simp: length_slice_last)
  qed
qed

lemma run_bounded:
  assumes "\<forall>pid p. pages w pid = Some p \<longrightarrow> length (history p) \<le> 10"
  shows "\<forall>pid p. pages (run w rs) pid = Some p \<longrightarrow> length (history p) \<le> 10"
  using assms
proof (induction rs arbitrary: w)
  case Nil
  then show ?case by (simp add: run_def)
next
  case (Cons r rs)
  have "\<forall>pid p. pages (step w r) pid = Some p \<longrightarrow> length (history p) \<le> 10"
    using step_bounded [OF Cons.prems] by blast
  from Cons.IH [OF this] show ?case by (simp add: run_def)
qed

lemma world0_bounded: "\<forall>pid p. pages world0 pid = Some p \<longrightarrow> length (history p) \<le> 10"
  by (auto simp: world0_def home_page_def split: if_splits)

lemma evict_oldest:
  assumes "length h \<le> 10"
  shows "slice_last 10 (h @ [e]) = (if length h < 10 then h else tl h) @ [e]"
proof (cases "length h < 10")
  case True
  then show ?thesis by (simp add: slice_last_short)
next
  case False
  with assms have "length h = 10" by simp
  then show ?thesis using False by (simp add: slice_last_snoc_full)
qed

lemma update_blocks_history:
  assumes "pages w (ub_pageId d) = Some p" and "hasAccess p (userId s) Editor"
  shows "map_option history (pages (step w (UpdateBlocks True s d)) (ub_pageId d)) =
           Some (slice_last 10 (history p @
             [\<lparr>h_version = version p, h_blocks = blocks p, h_updatedBy = userId s,
               h_changeDescription = changeDescription (ub_changeType d) (ub_blockId d)\<rparr>]))"
  using assms by (simp add: update_blocks_def Let_def history_push_history)

lemma put_blocks_history:
  assumes "pages w pid = Some p" and "hasAccess p uid Editor"
  shows "map_option history (pages (step w (PutBlocks True uid pid bs)) pid) =
           Some (slice_last 10 (history p @
             [\<lparr>h_version = version p, h_blocks = blocks p, h_updatedBy = uid,
               h_changeDescription = ''Blocks updated''\<rparr>]))"
  using assms by (simp add: put_blocks_def Let_def history_push_history)

lemma put_page_history:
  assumes "pages w pid = Some p" and "hasAccess p uid Editor" and "b_blocks b = Some bs"
  shows "map_option history (pages (step w (PutPage True uid pid b)) pid) =
           Some (slice_last 10 (history p @
             [\<lparr>h_version = version p, h_blocks = blocks p, h_updatedBy = uid,
               h_changeDescription = ''Blocks updated''\<rparr>]))"
  using assms by (simp add: put_page_def Let_def history_push_history history_assign_body)

text \<open>
  C2. Starting from stored documents whose history holds at most 10 entries (a new
  document has none), after any finite sequence of mutating requests, accepted or not,
  every stored document's history holds at most 10 entries. In every state so reached,
  an accepted block write (the update-blocks event, \<open>PUT /:id/blocks\<close>, and
  \<open>PUT /:id\<close> with blocks) appends the snapshot of the pre-mutation version and blocks
  at the end of the history and, exactly when the history already held 10 entries,
  drops its oldest entry (the head) and no other; and no request changes a history in
  any other way.
\<close>

theorem history_at_most_10_fifo:
  assumes "\<forall>pid p. pages w pid = Some p \<longrightarrow> length (history p) \<le> 10"
  shows "(\<forall>pid p. pages (run w rs) pid = Some p \<longrightarrow> length (history p) \<le> 10) \<and>
         (\<forall>s d p. pages (run w rs) (ub_pageId d) = Some p \<and> hasAccess p (userId s) Editor \<longrightarrow>
            map_option history (pages (step (run w rs) (UpdateBlocks True s d)) (ub_pageId d)) =
              Some ((if length (history p) < 10 then history p else tl (history p)) @
                [\<lparr>h_version = version p, h_blocks = blocks p, h_updatedBy = userId s,
                  h_changeDescription = changeDescription (ub_changeType d) (ub_blockId d)\<rparr>])) \<and>
         (\<forall>uid pid bs p. pages (run w rs) pid = Some p \<and> hasAccess p uid Editor \<longrightarrow>
            map_option history (pages (step (run w rs) (PutBlocks True uid pid bs)) pid) =
              Some ((if length (history p) < 10 then history p else tl (history p)) @
                [\<lparr>h_version = version p, h_blocks = blocks p, h_updatedBy = uid,
                  h_changeDescription = ''Blocks updated''\<rparr>])) \<and>
         (\<forall>uid pid b bs p. pages (run w rs) pid = Some p \<and> hasAccess p uid Editor \<and>
              b_blocks b = Some bs \<longrightarrow>
            map_option history (pages (step (run w rs) (PutPage True uid pid b)) pid) =
              Some ((if length (history p) < 10 then history p else tl (history p)) @
                [\<lparr>h_version = version p, h_blocks = blocks p, h_updatedBy = uid,
                  h_changeDescription = ''Blocks updated''\<rparr>])) \<and>
         (\<forall>r pid p p'. pages (run w rs) pid = Some p \<and> pages (step (run w rs) r) pid = Some p' \<longrightarrow>
            history p' = history p \<or>
            (\<exists>e. history p' = (if length (history p) < 10 then history p else tl (history p)) @ [e]))"
proof -
  have inv: "\<And>pid p. pages (run w rs) pid = Some p \<Longrightarrow> length (history p) \<le> 10"
    using run_bounded [OF assms] by blast
  have a: "\<forall>pid p. pages (run w rs) pid = Some p \<longrightarrow> length (history p) \<le> 10"
    using inv by blast
  have b: "\<forall>s d p. pages (run w rs) (ub_pageId d) = Some p \<and> hasAccess p (userId s) Editor \<longrightarrow>
            map_option history (pages (step (run w rs) (UpdateBlocks True s d)) (ub_pageId d)) =
              Some ((if length (history p) < 10 then history p else tl (history p)) @
                [\<lparr>h_version = version p, h_blocks = blocks p, h_updatedBy = userId s,
                  h_changeDescription = changeDescription (ub_changeType d) (ub_blockId d)\<rparr>])"
    using update_blocks_history evict_oldest inv by metis
  have c: "\<forall>uid pid bs p. pages (run w rs) pid = Some p \<and> hasAccess p uid Editor \<longrightarrow>
            map_option history (pages (step (run w rs) (PutBlocks True uid pid bs)) pid) =
              Some ((if length (history p) < 10 then history p else tl (history p)) @
                [\<lparr>h_version = version p, h_blocks = blocks p, h_updatedBy = uid,
                  h_changeDescription = ''Blocks updated''\<rparr>])"
    using put_blocks_history evict_oldest inv by metis
  have d: "\<forall>uid pid b bs p. pages (run w rs) pid = Some p \<and> hasAccess p uid Editor \<and>
              b_blocks b = Some bs \<longrightarrow>
            map_option history (pages (step (run w rs) (PutPage True uid pid b)) pid) =
              Some ((if length (history p) < 10 then history p else tl (history p)) @
                [\<lparr>h_version = version p, h_blocks = blocks p, h_updatedBy = uid,
                  h_changeDescription = ''Blocks updated''\<rparr>])"
    using put_page_history evict_oldest inv by metis
  have e: "\<forall>r pid p p'. pages (run w rs) pid = Some p \<and> pages (step (run w rs) r) pid = Some p' \<longrightarrow>
            history p' = history p \<or>
            (\<exists>e. history p' = (if length (history p) < 10 then history p else tl (history p)) @ [e])"
  proof (intro allI impI)
    fix r pid p p'
    assume h: "pages (run w rs) pid = Some p \<and> pages (step (run w rs) r) pid = Some p'"
    then have "history p' = history p \<or> (\<exists>e. history p' = slice_last 10 (history p @ [e]))"
      using step_history by blast
    moreover from h have "length (history p) \<le> 10" using inv by blast
    ultimately show "history p' = history p \<or>
        (\<exists>e. history p' = (if length (history p) < 10 then history p else tl (history p)) @ [e])"
      using evict_oldest by metis
  qed
  from a b c d e show ?thesis by blast
qed

theorem history_at_most_10_fifo_witness:
  "length (history home_page) \<le> 10 \<and>
   map_option (map h_version \<circ> history) (pages (run world0 long_edits) ''p1'') =
     Some [3, 4, 5, 6, 7, 8, 9, 10, 11, 12] \<and>
   map_option (map h_version \<circ> history) (pages (step (run world0 long_edits) (edit ''n'')) ''p1'') =
     Some [4, 5, 6, 7, 8, 9, 10, 11, 12, 13]"
proof -
  have ev: "map_option (\<lambda>p. (map h_version (history p), version p, hasAccess p ''u2'' Editor))
              (pages (run world0 long_edits) ''p1'') = Some ([3, 4, 5, 6, 7, 8, 9, 10, 11, 12], 13, True)"
    by (simp add: eval_defs)
  then obtain p where p: "pages (run world0 long_edits) ''p1'' = Some p"
    and hv: "map h_version (history p) = [3, 4, 5, 6, 7, 8, 9, 10, 11, 12]"
    and v: "version p = 13" and acc: "hasAccess p ''u2'' Editor"
    by auto
  from hv have len: "length (history p) = 10"
    using length_map [of h_version "history p"] by simp
  have s: "userId (unbound_socket bob) = ''u2''" "ub_pageId (set_blocks ''n'') = ''p1''"
    by (simp_all add: example_defs)
  from history_at_most_10_fifo [OF world0_bounded, of long_edits]
  have "\<forall>s d p. pages (run world0 long_edits) (ub_pageId d) = Some p \<and> hasAccess p (userId s) Editor \<longrightarrow>
            map_option history (pages (step (run world0 long_edits) (UpdateBlocks True s d)) (ub_pageId d)) =
              Some ((if length (history p) < 10 then history p else tl (history p)) @
                [\<lparr>h_version = version p, h_blocks = blocks p, h_updatedBy = userId s,
                  h_changeDescription = changeDescription (ub_changeType d) (ub_blockId d)\<rparr>])"
    by blast
  from this [rule_format, of "set_blocks ''n''" p "unbound_socket bob"] p acc s len
  have "map_option history (pages (step (run world0 long_edits) (edit ''n'')) ''p1'') =
          Some (tl (history p) @
            [\<lparr>h_version = version p, h_blocks = blocks p, h_updatedBy = ''u2'',
              h_changeDescription = changeDescription (ub_changeType (set_blocks ''n''))
                (ub_blockId (set_blocks ''n''))\<rparr>])"
    by (simp add: edit_def)
  then have "map_option (map h_version \<circ> history)
               (pages (step (run world0 long_edits) (edit ''n'')) ''p1'') =
             Some (tl (map h_version (history p)) @ [version p])"
    by (auto simp: map_tl)
  with p hv v show ?thesis by (simp add: home_page_def)
qed

text \<open>
  C1 as stated fails for settings and title updates: Bob's accepted update-page-settings
  on the new page p1 is broadcast, and the stored page is still at version 1 with an
  empty history.
\<close>

theorem settings_update_keeps_version_counterexample:
  "snd (update_page_settings True (unbound_socket bob) world0 set_theme) =
     [(RoomExceptSender ''p1'',
       PageSettingsUpdated \<lparr>theme = Some ''dark'', favicon = None, metaTitle = None,
         metaDescription = None, customCSS = None, customJS = None\<rparr> bob)] \<and>
   version home_page = 1 \<and> history home_page = [] \<and>
   map_option version (pages (fst (update_page_settings True (unbound_socket bob) world0 set_theme)) ''p1'')
     = Some 1 \<and>
   map_option history (pages (fst (update_page_settings True (unbound_socket bob) world0 set_theme)) ''p1'')
     = Some []"
  by (simp add: example_defs update_page_settings_def hasAccess_def assign_settings_def
      spread_field_def)

text \<open>
  C1, amended. An accepted update-blocks event appends a history entry holding the
  pre-mutation version and blocks, the sender and the description
  \<open>changeType block[ blockId]\<close> (the history is then cut to its last 10 entries, the new
  entry being the last one) and increments the version by exactly 1. Accepted
  update-page-settings and update-page-title events store the document and broadcast
  the settings or title read back from it, append no history entry and leave the version
  unchanged.
\<close>

theorem update_blocks_appends_history:
  assumes "pages w pid = Some p"
    and "hasAccess p (userId s) Editor"
    and "ub_pageId bd = pid" and "us_pageId sd = pid" and "ut_pageId td = pid"
  shows
    "(\<exists>q. update_blocks True s w bd =
            (w\<lparr>pages := (pages w)(pid \<mapsto> q)\<rparr>,
             [(RoomExceptSender pid,
               BlocksUpdated (ub_blocks bd) (version p + 1) (user s) (ub_changeType bd) (ub_blockId bd))]) \<and>
          history q = slice_last 10 (history p @
            [\<lparr>h_version = version p, h_blocks = blocks p, h_updatedBy = userId s,
              h_changeDescription = changeDescription (ub_changeType bd) (ub_blockId bd)\<rparr>]) \<and>
          last (history q) =
            \<lparr>h_version = version p, h_blocks = blocks p, h_updatedBy = userId s,
             h_changeDescription = changeDescription (ub_changeType bd) (ub_blockId bd)\<rparr> \<and>
          version q = version p + 1 \<and> blocks q = ub_blocks bd) \<and>
     (\<exists>q. update_page_settings True s w sd =
            (w\<lparr>pages := (pages w)(pid \<mapsto> q)\<rparr>,
             [(RoomExceptSender pid, PageSettingsUpdated (settings q) (user s))]) \<and>
          history q = history p \<and> version q = version p \<and> blocks q = blocks p) \<and>
     (\<exists>q. update_page_title True s w td =
            (w\<lparr>pages := (pages w)(pid \<mapsto> q)\<rparr>,
             [(RoomExceptSender pid, PageTitleUpdated (title q) (user s))]) \<and>
          history q = history p \<and> version q = version p \<and> blocks q = blocks p)"
proof (intro conjI)
  let ?e = "\<lparr>h_version = version p, h_blocks = blocks p, h_updatedBy = userId s,
             h_changeDescription = changeDescription (ub_changeType bd) (ub_blockId bd)\<rparr>"
  let ?q = "(push_history ?e p)\<lparr>blocks := ub_blocks bd, version := version p + 1\<rparr>"
  have "update_blocks True s w bd =
          (w\<lparr>pages := (pages w)(pid \<mapsto> ?q)\<rparr>,
           [(RoomExceptSender pid,
             BlocksUpdated (ub_blocks bd) (version p + 1) (user s) (ub_changeType bd) (ub_blockId bd))])"
    using assms by (simp add: update_blocks_def Let_def push_history_fields)
  moreover have "history ?q = slice_last 10 (history p @ [?e])"
    by (simp add: history_push_history)
  moreover have "last (history ?q) = ?e"
    by (simp add: last_push_history)
  ultimately show "\<exists>q. update_blocks True s w bd =
            (w\<lparr>pages := (pages w)(pid \<mapsto> q)\<rparr>,
             [(RoomExceptSender pid,
               BlocksUpdated (ub_blocks bd) (version p + 1) (user s) (ub_changeType bd) (ub_blockId bd))]) \<and>
          history q = slice_last 10 (history p @ [?e]) \<and> last (history q) = ?e \<and>
          version q = version p + 1 \<and> blocks q = ub_blocks bd"
    by (intro exI [of _ ?q]) simp
next
  show "\<exists>q. update_page_settings True s w sd =
            (w\<lparr>pages := (pages w)(pid \<mapsto> q)\<rparr>,
             [(RoomExceptSender pid, PageSettingsUpdated (settings q) (user s))]) \<and>
          history q = history p \<and> version q = version p \<and> blocks q = blocks p"
    using assms
    by (intro exI [of _ "assign_settings (us_settings sd) p"])
       (simp add: update_page_settings_def Let_def assign_settings_fields)
next
  show "\<exists>q. update_page_title True s w td =
            (w\<lparr>pages := (pages w)(pid \<mapsto> q)\<rparr>,
             [(RoomExceptSender pid, PageTitleUpdated (title q) (user s))]) \<and>
          history q = history p \<and> version q = version p \<and> blocks q = blocks p"
    using assms
    by (intro exI [of _ "assign_title (ut_title td) p"])
       (simp add: update_page_title_def Let_def assign_title_fields)
qed

theorem update_blocks_appends_history_witness:
  "(\<exists>q. update_blocks True (unbound_socket bob) world0 (set_blocks ''b'') =
          (world0\<lparr>pages := (pages world0)(''p1'' \<mapsto> q)\<rparr>,
           [(RoomExceptSender ''p1'', BlocksUpdated [blk ''b''] 2 bob ''update'' (Some ''b''))]) \<and>
        history q = [\<lparr>h_version = 1, h_blocks = [blk ''a''], h_updatedBy = ''u2'',
                      h_changeDescription = ''update block b''\<rparr>] \<and>
        last (history q) = \<lparr>h_version = 1, h_blocks = [blk ''a''], h_updatedBy = ''u2'',
                             h_changeDescription = ''update block b''\<rparr> \<and>
        version q = 2 \<and> blocks q = [blk ''b'']) \<and>
   (\<exists>q. update_page_settings True (unbound_socket bob) world0 set_theme =
          (world0\<lparr>pages := (pages world0)(''p1'' \<mapsto> q)\<rparr>,
           [(RoomExceptSender ''p1'', PageSettingsUpdated (settings q) bob)]) \<and>
        history q = [] \<and> version q = 1 \<and> blocks q = [blk ''a'']) \<and>
   (\<exists>q. update_page_title True (unbound_socket bob) world0 set_title =
          (world0\<lparr>pages := (pages world0)(''p1'' \<mapsto> q)\<rparr>,
           [(RoomExceptSender ''p1'', PageTitleUpdated (title q) bob)]) \<and>
        history q = [] \<and> version q = 1 \<and> blocks q = [blk ''a''])"
proof -
  have p: "pages world0 ''p1'' = Some home_page" by (simp add: world0_def)
  have a: "hasAccess home_page (userId (unbound_socket bob)) Editor"
    by (simp add: hasAccess_def example_defs)
  have e: "changeDescription ''update'' (Some ''b'') = ''update block b''"
    by (simp add: changeDescription_def)
  from update_blocks_appends_history [OF p a, of "set_blocks ''b''" set_theme set_title]
  show ?thesis
    by (simp add: set_blocks_def set_theme_def set_title_def unbound_socket_def bob_def
        home_page_def e slice_last_def)
qed

section \<open>Access control\<close>

text \<open>
  C6. \<open>hasAccess\<close> is true for the owner whatever the collaborator entries are, false
  for a user who is neither the owner nor listed as a collaborator, and for a listed
  non-owner true exactly when the rank of the (first) entry's role is at least the
  required rank, with viewer 1, editor 2 and admin 3. It is a function of the document,
  the user and the role only and returns nothing but the boolean.
\<close>

theorem hasAccess_spec:
  "(owner p = uid \<longrightarrow> hasAccess p uid r) \<and>
   (owner p \<noteq> uid \<and> (\<forall>c \<in> set (collaborators p). collab_user c \<noteq> uid) \<longrightarrow> \<not> hasAccess p uid r) \<and>
   (\<forall>c. owner p \<noteq> uid \<and> List.find (\<lambda>c. collab_user c = uid) (collaborators p) = Some c \<longrightarrow>
      hasAccess p uid r = (roleHierarchy r \<le> roleHierarchy (collab_role c))) \<and>
   roleHierarchy Viewer = 1 \<and> roleHierarchy Editor = 2 \<and> roleHierarchy Admin = 3"
proof (intro conjI allI impI)
  assume "owner p = uid"
  then show "hasAccess p uid r" by (simp add: hasAccess_def)
next
  assume a: "owner p \<noteq> uid \<and> (\<forall>c \<in> set (collaborators p). collab_user c \<noteq> uid)"
  then have "List.find (\<lambda>c. collab_user c = uid) (collaborators p) = None"
    by (simp add: find_None_iff)
  with a show "\<not> hasAccess p uid r" by (simp add: hasAccess_def)
next
  fix c
  assume "owner p \<noteq> uid \<and> List.find (\<lambda>c. collab_user c = uid) (collaborators p) = Some c"
  then show "hasAccess p uid r = (roleHierarchy r \<le> roleHierarchy (collab_role c))"
    by (simp add: hasAccess_def)
qed simp_all

theorem hasAccess_spec_witness:
  "hasAccess home_page ''u1'' Admin \<and> \<not> hasAccess home_page ''u4'' Viewer \<and>
   \<not> hasAccess home_page ''u3'' Editor \<and> hasAccess home_page ''u2'' Editor"
  using hasAccess_spec [of home_page "''u1''" Admin]
    hasAccess_spec [of home_page "''u4''" Viewer]
    hasAccess_spec [of home_page "''u3''" Editor]
    hasAccess_spec [of home_page "''u2''" Editor]
  by (simp add: home_page_def)

text \<open>
  C8. An update-blocks event from a user who is not the owner and whose collaborator
  role is viewer is rejected by the access check: the stored documents (blocks, version
  and history included) and the presence registry are unchanged, nothing is broadcast to
  a room, and the only emitted event is an error sent to the sending connection.
\<close>

theorem viewer_update_blocks_rejected:
  assumes "pages w (ub_pageId d) = Some p"
    and "owner p \<noteq> userId s"
    and "List.find (\<lambda>c. collab_user c = userId s) (collaborators p) = Some c"
    and "collab_role c = Viewer"
  shows "update_blocks save_ok s w d = (w, [(Sender, Error ''Access denied'')])"
  using assms by (simp add: update_blocks_def hasAccess_def)

theorem viewer_update_blocks_rejected_witness:
  "update_blocks True (bound_socket carol ''p1'') world1 (set_blocks ''b'') =
     (world1, [(Sender, Error ''Access denied'')])"
  using viewer_update_blocks_rejected [of world1 "set_blocks ''b''" home_page
      "bound_socket carol ''p1''" "\<lparr>collab_user = ''u3'', collab_role = Viewer\<rparr>" True]
  by (simp add: example_defs)

section \<open>History navigation\<close>

text \<open>
  C7. An undo-redo request from a user with editor access whose target version has no
  history entry does nothing: the stored documents are unchanged and no event at all is
  emitted, neither an error to the sender nor a broadcast.
\<close>

theorem undo_redo_no_entry_noop:
  assumes "pages w (ur_pageId d) = Some p"
    and "hasAccess p (userId s) Editor"
    and "\<forall>h \<in> set (history p). Some (h_version h) \<noteq> targetVersion p d"
  shows "undo_redo save_ok s w d = (w, [])"
proof -
  from assms(3) have "historyEntry p (targetVersion p d) = None"
    by (simp add: historyEntry_def find_None_iff)
  with assms(1,2) show ?thesis by (simp add: undo_redo_def)
qed

theorem undo_redo_no_entry_noop_witness:
  "undo_redo True (unbound_socket bob) world2 redo = (world2, [])"
  using undo_redo_no_entry_noop [of world2 redo edited_page "unbound_socket bob" True]
  by (simp add: example_defs hasAccess_def targetVersion_def)

text \<open>
  C3. Undo immediately after an accepted update-blocks should restore the blocks and the
  version the document had before that mutation. The handler takes the first history
  entry with the target version, and entries of a branch left by undo stay in the
  history, so the version numbers of retained entries need not be distinct. After the
  edits b, c, undo, undo, d the page holds blocks d at version 2; a further edit e
  followed by undo yields version 2 with the blocks b of the abandoned branch.
\<close>

theorem undo_after_update_restores_stale_blocks:
  "map_option blocks (pages (run world0 branch_edits) ''p1'') = Some [blk ''d''] \<and>
   map_option version (pages (run world0 branch_edits) ''p1'') = Some 2 \<and>
   map_option blocks (pages (run world0 (branch_edits @ [edit ''e'', undo_req])) ''p1'') = Some [blk ''b''] \<and>
   map_option version (pages (run world0 (branch_edits @ [edit ''e'', undo_req])) ''p1'') = Some 2 \<and>
   blk ''b'' \<noteq> blk ''d''"
  by (simp add: eval_defs branch_edits_def)

lemma find_snoc_last:
  "\<forall>x \<in> set ys. \<not> P x \<Longrightarrow> P e \<Longrightarrow> List.find P (ys @ [e]) = Some e"
  by (induction ys) simp_all

lemma find_slice_last_snoc:
  assumes "\<forall>x \<in> set xs. \<not> P x" and "P e" and "0 < n"
  shows "List.find P (slice_last n (xs @ [e])) = Some e"
proof -
  have "slice_last n (xs @ [e]) = drop (Suc (length xs) - n) xs @ [e]"
    using assms(3) by (simp add: slice_last_def)
  moreover have "\<forall>x \<in> set (drop (Suc (length xs) - n) xs). \<not> P x"
    using assms(1) by (meson in_set_dropD)
  ultimately show ?thesis using assms(2) by (simp add: find_snoc_last)
qed

lemma hasAccess_cong:
  "owner q = owner p \<Longrightarrow> collaborators q = collaborators p \<Longrightarrow> hasAccess q = hasAccess p"
  by (simp add: hasAccess_def fun_eq_iff)

text \<open>
  Where no retained entry carries the document's current version, undo after an accepted
  update-blocks does restore the blocks and the version, and the history keeps the
  appended entry.
\<close>

lemma undo_after_update_when_version_fresh:
  assumes "pages w pid = Some p"
    and "hasAccess p (userId s) Editor"
    and "ub_pageId d = pid" and "ur_pageId u = pid" and "ur_action u = ''undo''"
    and "\<forall>h \<in> set (history p). h_version h \<noteq> version p"
  shows "undo_redo True s (fst (update_blocks True s w d)) u =
           (w\<lparr>pages := (pages w)(pid \<mapsto>
               (push_history \<lparr>h_version = version p, h_blocks = blocks p, h_updatedBy = userId s,
                   h_changeDescription = changeDescription (ub_changeType d) (ub_blockId d)\<rparr> p)
               \<lparr>blocks := blocks p, version := version p\<rparr>)\<rparr>,
            [(RoomExceptSender pid, HistoryNavigated (blocks p) (version p) ''undo'' (user s))])"
proof -
  let ?e = "\<lparr>h_version = version p, h_blocks = blocks p, h_updatedBy = userId s,
             h_changeDescription = changeDescription (ub_changeType d) (ub_blockId d)\<rparr>"
  let ?q = "(push_history ?e p)\<lparr>blocks := ub_blocks d, version := version p + 1\<rparr>"
  have upd: "fst (update_blocks True s w d) = w\<lparr>pages := (pages w)(pid \<mapsto> ?q)\<rparr>"
    using assms(1-3) by (simp add: update_blocks_def Let_def push_history_fields)
  have acc: "hasAccess ?q (userId s) Editor"
    using assms(2) hasAccess_cong [of ?q p] by (simp add: push_history_fields)
  have tv: "targetVersion ?q u = Some (version p)"
    using assms(5) by (simp add: targetVersion_def)
  have "List.find (\<lambda>h. h_version h = version p) (slice_last 10 (history p @ [?e])) = Some ?e"
    using assms(6) by (intro find_slice_last_snoc) simp_all
  then have he: "historyEntry ?q (Some (version p)) = Some ?e"
    by (simp add: historyEntry_def history_push_history)
  show ?thesis
    using assms(4,5) acc
    by (simp add: upd undo_redo_def tv he)
qed

text \<open>
  C4. Redo after an undo should restore the blocks the document had before the undo.
  The state an undo leaves is never written to the history, so after one edit and one
  undo no entry carries the redo's target version: redo changes nothing, emits nothing,
  and the page keeps the blocks a instead of returning to b.
\<close>

theorem redo_after_undo_is_noop:
  "map_option blocks (pages (run world0 [edit ''b'']) ''p1'') = Some [blk ''b''] \<and>
   map_option blocks (pages (run world0 [edit ''b'', undo_req]) ''p1'') = Some [blk ''a''] \<and>
   undo_redo True (unbound_socket bob) (run world0 [edit ''b'', undo_req]) redo =
     (run world0 [edit ''b'', undo_req], []) \<and>
   map_option blocks (pages (run world0 [edit ''b'', undo_req, redo_req]) ''p1'') = Some [blk ''a''] \<and>
   blk ''a'' \<noteq> blk ''b''"
  by (simp add: eval_defs)

section \<open>Room sessions\<close>

text \<open>
  C5. A connection bound to room p1 that joins room p2 should cause a user-left notice
  to p1's remaining members, then a user-joined notice to p2's members. With Alice and
  Bob present in p1, Bob's join of p2 moves his presence entry and his room membership
  from p1 to p2 and emits only the user-joined notice to p2 and the presence list to
  Bob; no user-left is sent to p1. The disconnect handler, run in the same state, does
  send user-left to p1.
\<close>

theorem join_other_page_emits_no_user_left:
  "join_page (bound_socket bob ''p1'') world1 ''p2'' =
     (bound_socket bob ''p2'',
      world1\<lparr>activeUsers := [(''p1'', [(''u1'', alice)]), (''p2'', [(''u2'', bob)])]\<rparr>,
      [(RoomExceptSender ''p2'', UserJoined ''u2'' bob), (Sender, ActiveUsers [bob])]) \<and>
   disconnect (bound_socket bob ''p1'') world1 =
     (world1\<lparr>activeUsers := [(''p1'', [(''u1'', alice)])]\<rparr>,
      [(RoomExceptSender ''p1'', UserLeft ''u2'' bob)])"
  by (simp add: join_page_def disconnect_def example_defs hasAccess_def removeUserFromPage_def
      addUserToPage_def getActiveUsersForPage_def AList.delete_eq)

section \<open>Ephemeral events\<close>

text \<open>
  C10. A cursor-move, block-select, typing-start or typing-stop event from a connection
  whose \<open>currentPageId\<close> is unset is dropped: nothing is emitted and the state is
  unchanged.
\<close>

theorem ephemeral_unbound_dropped:
  assumes "\<not> truthy (currentPageId s)"
  shows "cursor_move s w d = (w, []) \<and> block_select s w b = (w, []) \<and>
         typing_start s w b = (w, []) \<and> typing_stop s w b = (w, [])"
  using assms
  by (simp add: truthy_def cursor_move_def block_select_def typing_start_def typing_stop_def
      split: option.splits)

theorem ephemeral_unbound_dropped_witness:
  "cursor_move (unbound_socket bob) world1 \<lparr>position = ''3'', c_blockId = Some ''a''\<rparr> = (world1, []) \<and>
   block_select (unbound_socket bob) world1 (Some ''a'') = (world1, []) \<and>
   typing_start (unbound_socket bob) world1 (Some ''a'') = (world1, []) \<and>
   typing_stop (unbound_socket bob) world1 (Some ''a'') = (world1, [])"
  using ephemeral_unbound_dropped [of "unbound_socket bob" world1
      "\<lparr>position = ''3'', c_blockId = Some ''a''\<rparr>" "Some ''a''"]
  by (simp add: unbound_socket_def truthy_def)

section \<open>Mutating events and the room binding\<close>

text \<open>
  C9 as stated fails for undo-redo: Bob, an editor of p1 whose connection is bound to
  p2, sends redo for p1 when no history entry carries the target version 3; the page is
  not mutated and nothing is broadcast.
\<close>

theorem editor_redo_without_entry_counterexample:
  "pages world2 (ur_pageId redo) = Some edited_page \<and>
   hasAccess edited_page (userId (bound_socket bob ''p2'')) Editor \<and>
   currentPageId (bound_socket bob ''p2'') = Some ''p2'' \<and>
   undo_redo True (bound_socket bob ''p2'') world2 redo = (world2, [])"
  by (simp add: example_defs undo_redo_def hasAccess_def targetVersion_def historyEntry_def)

text \<open>
  C9, amended. The update-blocks, update-page-settings, update-page-title and undo-redo
  handlers perform no room-binding check: for a user with editor access to the page P
  named in the payload, the outcome is the same whatever \<open>currentPageId\<close> and room
  membership the connection has (unbound, or bound to another page). When the save
  succeeds, update-blocks, update-page-settings and update-page-title store P with the
  update applied through the schema and broadcast to P's room; undo-redo does so exactly
  when a history entry of the target version exists and otherwise changes and emits
  nothing. When the save fails, P is unchanged and the sender gets an error.
\<close>

theorem mutating_events_ignore_room_binding:
  assumes "pages w pid = Some p"
    and "hasAccess p (userId s) Editor"
    and "ub_pageId bd = pid" and "us_pageId sd = pid" and "ut_pageId td = pid"
    and "ur_pageId rd = pid"
  shows
    "update_blocks ok (s\<lparr>currentPageId := c, rooms := rm\<rparr>) w bd =
       (if ok
        then (w\<lparr>pages := (pages w)(pid \<mapsto>
                (push_history \<lparr>h_version = version p, h_blocks = blocks p, h_updatedBy = userId s,
                    h_changeDescription = changeDescription (ub_changeType bd) (ub_blockId bd)\<rparr> p)
                \<lparr>blocks := ub_blocks bd, version := version p + 1\<rparr>)\<rparr>,
              [(RoomExceptSender pid,
                BlocksUpdated (ub_blocks bd) (version p + 1) (user s) (ub_changeType bd) (ub_blockId bd))])
        else (w, [(Sender, Error ''Failed to update blocks'')])) \<and>
     update_page_settings ok (s\<lparr>currentPageId := c, rooms := rm\<rparr>) w sd =
       (if ok
        then (w\<lparr>pages := (pages w)(pid \<mapsto> assign_settings (us_settings sd) p)\<rparr>,
              [(RoomExceptSender pid,
                PageSettingsUpdated (settings (assign_settings (us_settings sd) p)) (user s))])
        else (w, [(Sender, Error ''Failed to update page settings'')])) \<and>
     update_page_title ok (s\<lparr>currentPageId := c, rooms := rm\<rparr>) w td =
       (if ok
        then (w\<lparr>pages := (pages w)(pid \<mapsto> assign_title (ut_title td) p)\<rparr>,
              [(RoomExceptSender pid,
                PageTitleUpdated (title (assign_title (ut_title td) p)) (user s))])
        else (w, [(Sender, Error ''Failed to update page title'')])) \<and>
     undo_redo ok (s\<lparr>currentPageId := c, rooms := rm\<rparr>) w rd =
       (case historyEntry p (targetVersion p rd) of
          None \<Rightarrow> (w, [])
        | Some h \<Rightarrow>
            if ok
            then (w\<lparr>pages := (pages w)(pid \<mapsto> p\<lparr>blocks := h_blocks h, version := h_version h\<rparr>)\<rparr>,
                  [(RoomExceptSender pid,
                    HistoryNavigated (h_blocks h) (h_version h) (ur_action rd) (user s))])
            else (w, [(Sender, Error ''Failed to perform undo/redo operation'')]))"
proof (intro conjI)
  show "update_blocks ok (s\<lparr>currentPageId := c, rooms := rm\<rparr>) w bd =
       (if ok
        then (w\<lparr>pages := (pages w)(pid \<mapsto>
                (push_history \<lparr>h_version = version p, h_blocks = blocks p, h_updatedBy = userId s,
                    h_changeDescription = changeDescription (ub_changeType bd) (ub_blockId bd)\<rparr> p)
                \<lparr>blocks := ub_blocks bd, version := version p + 1\<rparr>)\<rparr>,
              [(RoomExceptSender pid,
                BlocksUpdated (ub_blocks bd) (version p + 1) (user s) (ub_changeType bd) (ub_blockId bd))])
        else (w, [(Sender, Error ''Failed to update blocks'')]))"
    using assms by (simp add: update_blocks_def Let_def push_history_fields)
next
  show "update_page_settings ok (s\<lparr>currentPageId := c, rooms := rm\<rparr>) w sd =
       (if ok
        then (w\<lparr>pages := (pages w)(pid \<mapsto> assign_settings (us_settings sd) p)\<rparr>,
              [(RoomExceptSender pid,
                PageSettingsUpdated (settings (assign_settings (us_settings sd) p)) (user s))])
        else (w, [(Sender, Error ''Failed to update page settings'')]))"
    using assms by (simp add: update_page_settings_def Let_def)
next
  show "update_page_title ok (s\<lparr>currentPageId := c, rooms := rm\<rparr>) w td =
       (if ok
        then (w\<lparr>pages := (pages w)(pid \<mapsto> assign_title (ut_title td) p)\<rparr>,
              [(RoomExceptSender pid,
                PageTitleUpdated (title (assign_title (ut_title td) p)) (user s))])
        else (w, [(Sender, Error ''Failed to update page title'')]))"
    using assms by (simp add: update_page_title_def Let_def)
next
  show "undo_redo ok (s\<lparr>currentPageId := c, rooms := rm\<rparr>) w rd =
       (case historyEntry p (targetVersion p rd) of
          None \<Rightarrow> (w, [])
        | Some h \<Rightarrow>
            if ok
            then (w\<lparr>pages := (pages w)(pid \<mapsto> p\<lparr>blocks := h_blocks h, version := h_version h\<rparr>)\<rparr>,
                  [(RoomExceptSender pid,
                    HistoryNavigated (h_blocks h) (h_version h) (ur_action rd) (user s))])
            else (w, [(Sender, Error ''Failed to perform undo/redo operation'')]))"
  proof (cases "historyEntry p (targetVersion p rd)")
    case None
    with assms show ?thesis by (simp add: undo_redo_def)
  next
    case (Some h)
    then have "List.find (\<lambda>h. Some (h_version h) = targetVersion p rd) (history p) = Some h"
      by (simp add: historyEntry_def)
    then have "targetVersion p rd = Some (h_version h)"
      by (auto simp: find_Some_iff)
    with Some assms show ?thesis by (simp add: undo_redo_def)
  qed
qed

theorem mutating_events_ignore_room_binding_witness:
  "update_blocks True (bound_socket bob ''p2'') world2 (set_blocks ''c'') =
     (world2\<lparr>pages := (pages world2)(''p1'' \<mapsto>
          (push_history \<lparr>h_version = 2, h_blocks = [blk ''b''], h_updatedBy = ''u2'',
              h_changeDescription = ''update block c''\<rparr> edited_page)
          \<lparr>blocks := [blk ''c''], version := 3\<rparr>)\<rparr>,
      [(RoomExceptSender ''p1'', BlocksUpdated [blk ''c''] 3 bob ''update'' (Some ''c''))]) \<and>
   update_page_settings True (bound_socket bob ''p2'') world2 set_theme =
     (world2\<lparr>pages := (pages world2)(''p1'' \<mapsto> edited_page
          \<lparr>settings := \<lparr>theme = Some ''dark'', favicon = None, metaTitle = None,
               metaDescription = None, customCSS = None, customJS = None\<rparr>\<rparr>)\<rparr>,
      [(RoomExceptSender ''p1'',
        PageSettingsUpdated \<lparr>theme = Some ''dark'', favicon = None, metaTitle = None,
          metaDescription = None, customCSS = None, customJS = None\<rparr> bob)]) \<and>
   update_page_title True (bound_socket bob ''p2'') world2 set_title =
     (world2\<lparr>pages := (pages world2)(''p1'' \<mapsto> edited_page\<lparr>title := ''Start''\<rparr>)\<rparr>,
      [(RoomExceptSender ''p1'', PageTitleUpdated ''Start'' bob)]) \<and>
   undo_redo True (bound_socket bob ''p2'') world2 undo =
     (world2\<lparr>pages := (pages world2)(''p1'' \<mapsto> edited_page\<lparr>blocks := [blk ''a''], version := 1\<rparr>)\<rparr>,
      [(RoomExceptSender ''p1'', HistoryNavigated [blk ''a''] 1 ''undo'' bob)])"
proof -
  have p: "pages world2 ''p1'' = Some edited_page" by (simp add: world2_def)
  have a: "hasAccess edited_page (userId (unbound_socket bob)) Editor"
    by (simp add: hasAccess_def example_defs)
  have e: "changeDescription ''update'' (Some ''c'') = ''update block c''"
    by (simp add: changeDescription_def)
  have h: "historyEntry edited_page (targetVersion edited_page undo) =
             Some \<lparr>h_version = 1, h_blocks = [blk ''a''], h_updatedBy = ''u2'',
                   h_changeDescription = ''update block b''\<rparr>"
    by (simp add: historyEntry_def targetVersion_def undo_def edited_page_def home_page_def)
  have v: "version edited_page = 2" "blocks edited_page = [blk ''b'']"
    by (simp_all add: edited_page_def home_page_def)
  have st: "assign_settings (us_settings set_theme) edited_page =
              edited_page\<lparr>settings := \<lparr>theme = Some ''dark'', favicon = None, metaTitle = None,
                 metaDescription = None, customCSS = None, customJS = None\<rparr>\<rparr>"
    by (simp add: assign_settings_def spread_field_def set_theme_def edited_page_def home_page_def)
  have tt: "assign_title (ut_title set_title) edited_page = edited_page\<lparr>title := ''Start''\<rparr>"
    by (simp add: assign_title_def trim_def is_space_def set_title_def)
  have b: "ub_pageId (set_blocks ''c'') = ''p1''" "us_pageId set_theme = ''p1''"
    "ut_pageId set_title = ''p1''" "ur_pageId undo = ''p1''"
    by (simp_all add: set_blocks_def set_theme_def set_title_def undo_def)
  have sk: "unbound_socket bob\<lparr>currentPageId := Some ''p2'', rooms := {''p2''}\<rparr> =
              bound_socket bob ''p2''"
    "user (unbound_socket bob) = bob"
    by (simp_all add: unbound_socket_def bound_socket_def)
  have f: "ub_blocks (set_blocks ''c'') = [blk ''c'']" "ub_changeType (set_blocks ''c'') = ''update''"
    "ub_blockId (set_blocks ''c'') = Some ''c''" "ur_action undo = ''undo''"
    "userId (unbound_socket bob) = ''u2''"
    by (simp_all add: set_blocks_def undo_def unbound_socket_def bob_def)
  from mutating_events_ignore_room_binding [OF p a b, where c = "Some ''p2''"
      and rm = "{''p2''}" and ok = True]
  show ?thesis
    by (simp add: sk f e h v st tt)
qed

end
